theory Spec2Isabelle
  imports Main "HOL-Library.Word"
begin

section \<open>JavaScript strings\<close>

text \<open>
  A JavaScript string is a sequence of 16-bit code units; \<open>length\<close> counts code
  units. String literals of the source are ASCII and are written \<open>js ''...''\<close>.
\<close>

type_synonym code_unit = "16 word"
type_synonym jsstring = "code_unit list"

definition js :: "string \<Rightarrow> jsstring" where
  "js s = map of_char s"

definition nl :: jsstring where
  "nl = [0x0A]"

text \<open>\<open>Array.prototype.join\<close> on an array of strings.\<close>

fun join :: "jsstring \<Rightarrow> jsstring list \<Rightarrow> jsstring" where
  "join sep [] = []"
| "join sep [x] = x"
| "join sep (x # y # ys) = x @ sep @ join sep (y # ys)"

text \<open>
  The code units matched by \<open>\s\<close> and removed by \<open>trim\<close>: the WhiteSpace and
  LineTerminator productions of ECMAScript.
\<close>

definition is_space :: "code_unit \<Rightarrow> bool" where
  "is_space c =
     (c = 0x09 \<or> c = 0x0A \<or> c = 0x0B \<or> c = 0x0C \<or> c = 0x0D \<or> c = 0x20 \<or>
      c = 0xA0 \<or> c = 0x1680 \<or> (0x2000 \<le> c \<and> c \<le> 0x200A) \<or> c = 0x2028 \<or>
      c = 0x2029 \<or> c = 0x202F \<or> c = 0x205F \<or> c = 0x3000 \<or> c = 0xFEFF)"

definition trim :: "jsstring \<Rightarrow> jsstring" where
  "trim s = rev (dropWhile is_space (rev (dropWhile is_space s)))"

section \<open>The regular expressions of extractSuggestions\<close>

text \<open>
  The source's patterns use literal characters, \<open>\s+\<close>, \<open>\s*\<close> and \<open>[^.]+\<close>,
  all under the \<open>i\<close> flag. A pattern is a sequence of such items; the matcher is the
  backtracking matcher of ECMAScript restricted to them: a quantifier is greedy, and
  gives characters back only when the rest of the pattern fails.
\<close>

datatype cls = Space | NotDot

datatype item = Lit code_unit | Star cls | Plus cls

definition in_cls :: "cls \<Rightarrow> code_unit \<Rightarrow> bool" where
  "in_cls k c = (case k of Space \<Rightarrow> is_space c | NotDot \<Rightarrow> c \<noteq> 0x2E)"

text \<open>
  Canonicalize of a non-Unicode, ignore-case pattern: a code unit is compared through
  its upper case, and a code unit outside ASCII never canonicalises to an ASCII one.
  The literals of the patterns are ASCII, so only the ASCII letters are folded.
\<close>

definition canonicalize :: "code_unit \<Rightarrow> code_unit" where
  "canonicalize c = (if 0x61 \<le> c \<and> c \<le> 0x7A then c - 0x20 else c)"

definition lit_eq :: "code_unit \<Rightarrow> code_unit \<Rightarrow> bool" where
  "lit_eq p c = (canonicalize p = canonicalize c)"

text \<open>
  \<open>rx_match p s\<close> matches pattern \<open>p\<close> at the start of \<open>s\<close> and returns the length
  of the match.
\<close>

fun rx_match :: "item list \<Rightarrow> jsstring \<Rightarrow> nat option" where
  "rx_match [] s = Some 0"
| "rx_match (Lit p # r) [] = None"
| "rx_match (Lit p # r) (c # cs) =
     (if lit_eq p c then map_option Suc (rx_match r cs) else None)"
| "rx_match (Plus k # r) [] = None"
| "rx_match (Plus k # r) (c # cs) =
     (if in_cls k c then map_option Suc (rx_match (Star k # r) cs) else None)"
| "rx_match (Star k # r) [] = rx_match r []"
| "rx_match (Star k # r) (c # cs) =
     (if in_cls k c
      then (case rx_match (Star k # r) cs of
              Some n \<Rightarrow> Some (Suc n)
            | None \<Rightarrow> rx_match r (c # cs))
      else rx_match r (c # cs))"

text \<open>
  \<open>String.prototype.match\<close> with a global pattern: every match, left to right, the
  search resuming where the previous match ended (one further on after an empty
  match). The source tests the result for \<open>null\<close> before iterating; no match is the
  empty list here.
\<close>

function match_g :: "item list \<Rightarrow> jsstring \<Rightarrow> jsstring list" where
  "match_g p [] = (case rx_match p [] of Some n \<Rightarrow> [[]] | None \<Rightarrow> [])"
| "match_g p (c # cs) =
     (case rx_match p (c # cs) of
        Some n \<Rightarrow> take n (c # cs) # match_g p (drop (n - 1) cs)
      | None \<Rightarrow> match_g p cs)"
  by pat_completeness auto
termination
  by (relation "measure (\<lambda>(p, s). length s)") auto

definition lits :: "string \<Rightarrow> item list" where
  "lits s = map Lit (js s)"

text \<open>The five patterns, in the order of the source's array.\<close>

definition patterns :: "item list list" where
  "patterns =
     [lits ''consider'' @ [Plus Space, Plus NotDot],
      lits ''try'' @ [Plus Space, Plus NotDot],
      lits ''you'' @ [Plus Space] @ lits ''could'' @ [Plus Space, Plus NotDot],
      lits ''i'' @ [Plus Space] @ lits ''recommend'' @ [Plus Space, Plus NotDot],
      lits ''suggestion:'' @ [Star Space, Plus NotDot]]"

text \<open>
  The pattern of the \<open>replace\<close> call,
  \<open>/^(consider|try|you could|i recommend|suggestion:)\s*/i\<close>: an alternation of
  literal phrases followed by \<open>\s*\<close>. The alternatives are tried in order, each
  with the rest of the pattern after it.
\<close>

definition leading_phrases :: "item list list" where
  "leading_phrases =
     [lits ''consider'', lits ''try'', lits ''you could'', lits ''i recommend'',
      lits ''suggestion:'']"

fun rx_alt :: "item list list \<Rightarrow> item list \<Rightarrow> jsstring \<Rightarrow> nat option" where
  "rx_alt [] r s = None"
| "rx_alt (a # as) r s =
     (case rx_match (a @ r) s of Some n \<Rightarrow> Some n | None \<Rightarrow> rx_alt as r s)"

text \<open>
  \<open>match.replace(/^(...)\s*/i, "")\<close>: the pattern is anchored at the start and is
  not global, so the only match removed is one at index 0; without one the string is
  returned as it is.
\<close>

definition strip_leading :: "jsstring \<Rightarrow> jsstring" where
  "strip_leading m =
     (case rx_alt leading_phrases [Star Space] m of
        Some n \<Rightarrow> drop n m
      | None \<Rightarrow> m)"

section \<open>extractSuggestions\<close>

definition cleaned :: "jsstring \<Rightarrow> jsstring" where
  "cleaned m = trim (strip_leading m)"

definition in_band :: "jsstring \<Rightarrow> bool" where
  "in_band c = (length c > 10 \<and> length c < 100)"

text \<open>The body of the inner \<open>forEach\<close>: one match, pushed when its length is in the band.\<close>

definition push_match :: "jsstring list \<Rightarrow> jsstring \<Rightarrow> jsstring list" where
  "push_match suggestions m =
     (if in_band (cleaned m) then suggestions @ [cleaned m] else suggestions)"

text \<open>The body of the outer \<open>forEach\<close>: one pattern.\<close>

definition push_pattern :: "jsstring \<Rightarrow> jsstring list \<Rightarrow> item list \<Rightarrow> jsstring list" where
  "push_pattern response suggestions pattern =
     foldl push_match suggestions (match_g pattern response)"

definition extractSuggestions :: "jsstring \<Rightarrow> jsstring list" where
  "extractSuggestions response = take 5 (foldl (push_pattern response) [] patterns)"

section \<open>Errors\<close>

text \<open>
  A thrown JavaScript error. \<open>TypeError\<close> is the engine's error on reading a
  property of \<open>null\<close> or \<open>undefined\<close>; its message is engine-defined.
\<close>

datatype error = Error jsstring | TypeError | UnsupportedModel jsstring

section \<open>The constructor\<close>

record gemini_content_service =
  svc_apiKey :: jsstring
  svc_model :: jsstring

text \<open>
  \<open>process.env\<close> is a map from variable names to strings. The test
  \<open>!process.env.GEMINI_API_KEY\<close> holds for an absent variable and for the empty string.
\<close>

definition new_GeminiContentService :: "(jsstring \<rightharpoonup> jsstring) \<Rightarrow> error + gemini_content_service" where
  "new_GeminiContentService env =
     (case env (js ''GEMINI_API_KEY'') of
        None \<Rightarrow> Inl (Error (js ''GEMINI_API_KEY environment variable is required''))
      | Some key \<Rightarrow>
          if key = [] then Inl (Error (js ''GEMINI_API_KEY environment variable is required''))
          else Inr \<lparr>svc_apiKey = key, svc_model = js ''gemini-2.5-flash''\<rparr>)"

section \<open>Sessions and the session table\<close>

text \<open>
  A message of a conversation. The system and user entries that chatWithGemini puts
  into the conversation it sends carry no timestamp; the stored ones carry the
  instant read from the clock (the source stores its ISO-8601 rendering).
\<close>

record chat_message =
  role :: jsstring
  content :: jsstring
  timestamp :: "nat option"

text \<open>
  A row of \<open>contentChatSessions\<close>, with the columns the source reads and writes.
  The \<open>messages\<close> column is JSON: \<open>None\<close> is a value that is not an array. The
  context blob is opaque (\<open>'a\<close>).
\<close>

record 'a session =
  sess_id :: int
  sess_userId :: jsstring
  sess_contentPieceId :: "int option"
  sess_sessionType :: jsstring
  sess_context :: 'a
  sess_messages :: "chat_message list option"
  sess_updatedAt :: nat

type_synonym 'a database = "'a session list"

text \<open>
  startContentSession inserts a row with an empty message array and returns it. The
  identifier is allocated by the database (\<open>newId\<close>) and the column default of
  \<open>updatedAt\<close> is the time of the insert; \<open>sessionType\<close> defaults to
  \<open>content_creation\<close>.
\<close>

definition startContentSession ::
  "'a database \<Rightarrow> int \<Rightarrow> nat \<Rightarrow> jsstring \<Rightarrow> int option \<Rightarrow> jsstring option \<Rightarrow> 'a
   \<Rightarrow> 'a session \<times> 'a database" where
  "startContentSession db newId now userId contentPieceId sessionType context =
     (let session =
        \<lparr>sess_id = newId, sess_userId = userId, sess_contentPieceId = contentPieceId,
         sess_sessionType = (case sessionType of None \<Rightarrow> js ''content_creation'' | Some t \<Rightarrow> t),
         sess_context = context, sess_messages = Some [], sess_updatedAt = now\<rparr>
      in (session, db @ [session]))"

text \<open>
  getChatSession: the first row whose id and userId both equal the arguments, or
  nothing (\<open>undefined\<close> in the source).
\<close>

definition getChatSession :: "'a database \<Rightarrow> int \<Rightarrow> jsstring \<Rightarrow> 'a session option" where
  "getChatSession db sessionId userId =
     find (\<lambda>r. sess_id r = sessionId \<and> sess_userId r = userId) db"

section \<open>Prompt assembly\<close>

definition basePrompt :: jsstring where
  "basePrompt = js ''You are an expert content strategist and SEO specialist helping users create high-quality, search-optimized content.''"

definition buildSystemPrompt :: "jsstring \<Rightarrow> 'c \<Rightarrow> jsstring" where
  "buildSystemPrompt sessionType context =
     (if sessionType = js ''content_creation'' then
        basePrompt @ js '' You help brainstorm ideas, structure content, and optimize for search engines. Be creative, practical, and focused on results.''
      else if sessionType = js ''seo_optimization'' then
        basePrompt @ js '' You specialize in improving existing content for better search rankings. Analyze content gaps, keyword opportunities, and provide specific optimization recommendations.''
      else if sessionType = js ''rewrite'' then
        basePrompt @ js '' You excel at rewriting content to improve clarity, engagement, and SEO performance while preserving the original message and tone.''
      else basePrompt)"

text \<open>
  The \<open>context\<close> argument of chatWithGemini and buildChatPrompt: \<open>null\<close>, or an
  object whose \<open>spyfuData\<close> property is falsy (\<open>None\<close>) or a truthy value. An
  omitted argument is the default \<open>{}\<close>, that is \<open>Context None\<close>.
\<close>

datatype 'a chat_context = NullContext | Context "'a option"

text \<open>The body of the \<open>forEach\<close> of buildChatPrompt: one message appended to the prompt.\<close>

definition append_message :: "jsstring \<Rightarrow> chat_message \<Rightarrow> jsstring" where
  "append_message prompt msg =
     (if role msg = js ''system'' then prompt @ js ''SYSTEM: '' @ content msg @ nl @ nl
      else if role msg = js ''user'' then prompt @ js ''USER: '' @ content msg @ nl @ nl
      else if role msg = js ''assistant'' then prompt @ js ''ASSISTANT: '' @ content msg @ nl @ nl
      else prompt)"

text \<open>
  \<open>stringify d\<close> stands for \<open>JSON.stringify(d, null, 2)\<close> of the library. Reading
  \<open>context.spyfuData\<close> of a \<open>null\<close> context throws.
\<close>

definition buildChatPrompt ::
  "('a \<Rightarrow> jsstring) \<Rightarrow> chat_message list \<Rightarrow> 'a chat_context \<Rightarrow> error + jsstring" where
  "buildChatPrompt stringify conversation context =
     (let prompt = foldl append_message [] conversation in
      case context of
        NullContext \<Rightarrow> Inl TypeError
      | Context spyfuData \<Rightarrow>
          Inr ((case spyfuData of
                  Some d \<Rightarrow>
                    prompt @ nl @ js ''AVAILABLE CONTEXT:'' @ nl @ js ''SpyFu Analysis: '' @
                    stringify d @ nl @ nl
                | None \<Rightarrow> prompt)
               @ js ''Please provide a helpful, actionable response:''))"

record 'a seo_params =
  title :: jsstring
  contentType :: jsstring
  keywords' :: "jsstring list"
  targetAudience :: jsstring
  contentLength :: jsstring
  tone :: jsstring
  spyfuData :: "'a option"

text \<open>
  The template literal of buildSEOContentPrompt, cut at its line breaks; the prompt
  is these pieces with a line feed between them.
\<close>

definition seo_template :: "('a \<Rightarrow> jsstring) \<Rightarrow> 'a seo_params \<Rightarrow> jsstring list" where
  "seo_template stringify params =
      [js ''You are an expert SEO content writer specializing in '' @ contentType params @
         js '' content. Create comprehensive, engaging content that ranks well in search engines.'',
       [],
       js ''CONTENT BRIEF:'',
       js ''- Title: '' @ title params,
       js ''- Content Type: '' @ contentType params,
       js ''- Target Length: '' @ contentLength params,
       js ''- Tone: '' @ tone params,
       js ''- Target Audience: '' @ targetAudience params,
       [],
       js ''PRIMARY KEYWORDS TO TARGET:'',
       join (js '', '') (keywords' params),
       [],
       (case spyfuData params of
          Some d \<Rightarrow> nl @ js ''COMPETITIVE INSIGHTS:'' @ nl @ stringify d @ nl
        | None \<Rightarrow> []),
       [],
       js ''CONTENT REQUIREMENTS:'',
       js ''1. Create a compelling headline and introduction'',
       js ''2. Naturally integrate target keywords throughout'',
       js ''3. Use semantic keywords and related terms'',
       js ''4. Structure with clear headers (H2, H3) for readability'',
       js ''5. Include actionable insights and value for readers'',
       js ''6. Optimize for featured snippets where possible'',
       js ''7. Write meta description (150-160 characters)'',
       js ''8. Suggest internal linking opportunities'',
       [],
       js ''OUTPUT FORMAT:'',
       js ''Provide the content in markdown format with:'',
       js ''- Clear heading structure'',
       js ''- Natural keyword integration'',
       js ''- Engaging and informative content'',
       js ''- Meta description suggestion at the end'',
       [],
       js ''Content:'']"

definition buildSEOContentPrompt :: "('a \<Rightarrow> jsstring) \<Rightarrow> 'a seo_params \<Rightarrow> jsstring" where
  "buildSEOContentPrompt stringify params = join nl (seo_template stringify params)"

section \<open>generateSEOContent\<close>

text \<open>
  The provider: \<open>this.model.generateContent(prompt)\<close>, then \<open>result.response\<close>
  and \<open>response.text()\<close>. \<open>None\<close> is a call that throws at any of the three.
\<close>

type_synonym generative_model = "jsstring \<Rightarrow> jsstring option"

datatype content_type = Blog | Page | Service

fun content_type_str :: "content_type \<Rightarrow> jsstring" where
  "content_type_str Blog = js ''blog''"
| "content_type_str Page = js ''page''"
| "content_type_str Service = js ''service''"

datatype length_bucket = Short | Medium | Long

datatype tone_name = Professional | Friendly | Authoritative | Conversational

fun tone_str :: "tone_name \<Rightarrow> jsstring" where
  "tone_str Professional = js ''professional''"
| "tone_str Friendly = js ''friendly''"
| "tone_str Authoritative = js ''authoritative''"
| "tone_str Conversational = js ''conversational''"

fun lengthGuide :: "length_bucket \<Rightarrow> jsstring" where
  "lengthGuide Short = js ''300-500 words''"
| "lengthGuide Medium = js ''800-1200 words''"
| "lengthGuide Long = js ''1500-2500 words''"

text \<open>
  An omitted \<open>contentLength\<close> or \<open>tone\<close> (\<open>None\<close>) takes its default. The result is
  the value returned or the error thrown, with the prompts sent to the provider.
\<close>

definition generateSEOContent ::
  "generative_model \<Rightarrow> ('a \<Rightarrow> jsstring) \<Rightarrow> jsstring \<Rightarrow> content_type \<Rightarrow> jsstring list \<Rightarrow> jsstring
   \<Rightarrow> length_bucket option \<Rightarrow> tone_name option \<Rightarrow> 'a option \<Rightarrow> (error + jsstring) \<times> jsstring list" where
  "generateSEOContent model stringify title_arg contentType_arg keywords_arg targetAudience_arg
     contentLength_arg tone_arg spyfuData_arg =
     (let prompt = buildSEOContentPrompt stringify
            \<lparr>title = title_arg, contentType = content_type_str contentType_arg,
             keywords' = keywords_arg, targetAudience = targetAudience_arg,
             contentLength =
               lengthGuide (case contentLength_arg of None \<Rightarrow> Medium | Some b \<Rightarrow> b),
             tone = tone_str (case tone_arg of None \<Rightarrow> Professional | Some t \<Rightarrow> t),
             spyfuData = spyfuData_arg\<rparr>
      in case model prompt of
           Some text \<Rightarrow> (Inr text, [prompt])
         | None \<Rightarrow> (Inl (Error (js ''Failed to generate content'')), [prompt]))"

section \<open>chatWithGemini\<close>

text \<open>
  The three readings of \<open>new Date()\<close> that a successful exchange makes, in order:
  for the stored user turn, for the stored assistant turn and for \<open>updatedAt\<close>.
\<close>

record clock =
  clock_user :: nat
  clock_assistant :: nat
  clock_update :: nat

record chat_reply =
  reply_message :: jsstring
  reply_sessionId :: int
  reply_suggestions :: "jsstring list"

text \<open>
  What a call of chatWithGemini leaves behind: the value returned or the error thrown,
  the session table after the call, and the prompts sent to the provider. The store
  itself is taken to be available: its queries do not fail.
\<close>

record 'a chat_outcome =
  chat_result :: "error + chat_reply"
  chat_db :: "'a database"
  chat_calls :: "jsstring list"

text \<open>\<open>Array.isArray(session.messages) ? session.messages : []\<close>\<close>

definition conversationHistory :: "'a session \<Rightarrow> chat_message list" where
  "conversationHistory session =
     (case sess_messages session of Some ms \<Rightarrow> ms | None \<Rightarrow> [])"

text \<open>
  The \<open>update ... set ... where id = sessionId\<close>: every row with that id gets the
  new message array and the new \<open>updatedAt\<close>.
\<close>

definition update_messages :: "'a database \<Rightarrow> int \<Rightarrow> chat_message list \<Rightarrow> nat \<Rightarrow> 'a database" where
  "update_messages db sessionId updatedMessages now =
     map (\<lambda>r. if sess_id r = sessionId
              then r\<lparr>sess_messages := Some updatedMessages, sess_updatedAt := now\<rparr>
              else r) db"

definition chatWithGemini ::
  "generative_model \<Rightarrow> ('a \<Rightarrow> jsstring) \<Rightarrow> 'a database \<Rightarrow> clock \<Rightarrow> int \<Rightarrow> jsstring \<Rightarrow> jsstring
   \<Rightarrow> 'a chat_context \<Rightarrow> 'a chat_outcome" where
  "chatWithGemini model stringify db now sessionId userMessage userId context =
     (case getChatSession db sessionId userId of
        None \<Rightarrow>
          \<lparr>chat_result = Inl (Error (js ''Chat session not found'')), chat_db = db,
           chat_calls = []\<rparr>
      | Some session \<Rightarrow>
          let history = conversationHistory session;
              systemPrompt = buildSystemPrompt (sess_sessionType session) context;
              fullConversation =
                [\<lparr>role = js ''system'', content = systemPrompt, timestamp = None\<rparr>] @
                history @
                [\<lparr>role = js ''user'', content = userMessage, timestamp = None\<rparr>]
          in (case buildChatPrompt stringify fullConversation context of
               Inl e \<Rightarrow>
                 \<lparr>chat_result = Inl (Error (js ''Failed to process chat message'')),
                  chat_db = db, chat_calls = []\<rparr>
             | Inr prompt \<Rightarrow>
                 (case model prompt of
                    None \<Rightarrow>
                      \<lparr>chat_result = Inl (Error (js ''Failed to process chat message'')),
                       chat_db = db, chat_calls = [prompt]\<rparr>
                  | Some assistantMessage \<Rightarrow>
                      let updatedMessages =
                            history @
                            [\<lparr>role = js ''user'', content = userMessage,
                              timestamp = Some (clock_user now)\<rparr>,
                             \<lparr>role = js ''assistant'', content = assistantMessage,
                              timestamp = Some (clock_assistant now)\<rparr>]
                      in \<lparr>chat_result =
                            Inr \<lparr>reply_message = assistantMessage, reply_sessionId = sessionId,
                                 reply_suggestions = extractSuggestions assistantMessage\<rparr>,
                          chat_db = update_messages db sessionId updatedMessages (clock_update now),
                          chat_calls = [prompt]\<rparr>)))"

text \<open>
  A client making exchanges on one session, one after the other, each with the
  provider's behaviour and the clock of its moment. It stops at the first exchange
  that fails; when all succeed it has the final table and the replies in order.
\<close>

record 'a exchange =
  ex_model :: generative_model
  ex_clock :: clock
  ex_userMessage :: jsstring
  ex_context :: "'a chat_context"

fun exchanges ::
  "('a \<Rightarrow> jsstring) \<Rightarrow> 'a database \<Rightarrow> int \<Rightarrow> jsstring \<Rightarrow> 'a exchange list
   \<Rightarrow> error + ('a database \<times> chat_reply list)" where
  "exchanges stringify db sessionId userId [] = Inr (db, [])"
| "exchanges stringify db sessionId userId (e # es) =
     (let out = chatWithGemini (ex_model e) stringify db (ex_clock e) sessionId
                  (ex_userMessage e) userId (ex_context e)
      in case chat_result out of
           Inl err \<Rightarrow> Inl err
         | Inr reply \<Rightarrow>
             (case exchanges stringify (chat_db out) sessionId userId es of
                Inl err \<Rightarrow> Inl err
              | Inr (db', replies) \<Rightarrow> Inr (db', reply # replies)))"

text \<open>The two messages one successful exchange stores.\<close>

definition turn :: "'a exchange \<Rightarrow> chat_reply \<Rightarrow> chat_message list" where
  "turn e reply =
     [\<lparr>role = js ''user'', content = ex_userMessage e,
       timestamp = Some (clock_user (ex_clock e))\<rparr>,
      \<lparr>role = js ''assistant'', content = reply_message reply,
       timestamp = Some (clock_assistant (ex_clock e))\<rparr>]"

section \<open>The test-model endpoint\<close>

text \<open>
  The parameters of \<open>client.chat.completions.create\<close>. The temperature is kept as
  the source's numeric literal.
\<close>

record completion_params =
  cp_model :: jsstring
  cp_messages :: "chat_message list"
  cp_max_completion_tokens :: "nat option"
  cp_max_tokens :: "nat option"
  cp_temperature :: "jsstring option"

text \<open>
  The provider's answer: the \<open>message.content\<close> of each choice, and the usage
  figures (opaque).
\<close>

record 'u completion =
  choices :: "jsstring list"
  usage :: 'u

text \<open>A client: a call of \<open>chat.completions.create\<close> returns or throws.\<close>

type_synonym 'u client = "completion_params \<Rightarrow> error + 'u completion"

text \<open>
  Modelled from the spec: \<open>ModelConfigService.selectClientAndModel\<close>, whose source is
  not among the files. Section 4.1: given a logical model identifier it returns the
  provider client handle and the provider-side model name; an unknown identifier
  fails with an "unsupported model" condition rather than defaulting. The
  configuration table is a parameter.
\<close>

definition selectClientAndModel ::
  "(jsstring \<times> 'u client \<times> jsstring) list \<Rightarrow> jsstring \<Rightarrow> error + ('u client \<times> jsstring)" where
  "selectClientAndModel configs modelId =
     (case map_of configs modelId of
        None \<Rightarrow> Inl (UnsupportedModel modelId)
      | Some entry \<Rightarrow> Inr entry)"

text \<open>
  The request: \<open>req.params.modelId\<close> and \<open>req.body.message\<close> (\<open>None\<close> when the
  body has none, which takes the default).
\<close>

record request =
  req_modelId :: jsstring
  req_message :: "jsstring option"

datatype 'u test_body =
  TestSuccess jsstring jsstring jsstring jsstring 'u
| TestFailure jsstring error

record 'u response =
  status :: nat
  body :: "'u test_body"

definition default_message :: jsstring where
  "default_message = js ''Hello, can you confirm you'' @ [0x27] @ js ''re working correctly?''"

text \<open>
  The handler of \<open>POST /test-model/:modelId\<close>: the response sent, and the calls made
  to a provider client. \<open>res.json\<close> without \<open>res.status\<close> answers 200. In a
  failure body the second component is the error whose \<open>message\<close> is sent as
  \<open>details\<close>.
\<close>

definition test_model ::
  "(jsstring \<times> 'u client \<times> jsstring) list \<Rightarrow> request \<Rightarrow> 'u response \<times> completion_params list" where
  "test_model configs req =
     (let modelId = req_modelId req;
          message = (case req_message req of None \<Rightarrow> default_message | Some m \<Rightarrow> m);
          failure = (\<lambda>e. \<lparr>status = 500,
                           body = TestFailure (js ''Failed to test model '' @ modelId) e\<rparr>)
      in case selectClientAndModel configs modelId of
           Inl e \<Rightarrow> (failure e, [])
         | Inr (client, modelName) \<Rightarrow>
             let isGPT5 = (take 5 modelName = js ''gpt-5'');
                 completionParams =
                   \<lparr>cp_model = modelName,
                    cp_messages =
                      [\<lparr>role = js ''system'',
                        content = js ''You are testing the '' @ modelName @
                          js '' model. Respond briefly confirming the model is working and mention your capabilities.'',
                        timestamp = None\<rparr>,
                       \<lparr>role = js ''user'', content = message, timestamp = None\<rparr>],
                    cp_max_completion_tokens = (if isGPT5 then Some 150 else None),
                    cp_max_tokens = (if isGPT5 then None else Some 150),
                    cp_temperature = (if isGPT5 then None else Some (js ''0.7''))\<rparr>
             in (case client completionParams of
                  Inl e \<Rightarrow> (failure e, [completionParams])
                | Inr response \<Rightarrow>
                    (case choices response of
                       [] \<Rightarrow> (failure TypeError, [completionParams])
                     | c # _ \<Rightarrow>
                         (\<lparr>status = 200,
                           body = TestSuccess modelId modelName message c (usage response)\<rparr>,
                          [completionParams]))))"

section \<open>Properties of the session table\<close>

lemma find_map_preserved:
  assumes "\<And>x. P (f x) = P x"
  shows "find P (map f xs) = map_option f (find P xs)"
  using assms by (induction xs) simp_all

lemma find_snoc:
  "find P (xs @ [x]) = (case find P xs of Some y \<Rightarrow> Some y | None \<Rightarrow> if P x then Some x else None)"
  by (induction xs) simp_all

lemma getChatSession_Some:
  "getChatSession db sid uid = Some s \<Longrightarrow> sess_id s = sid \<and> sess_userId s = uid \<and> s \<in> set db"
  unfolding getChatSession_def by (auto simp: find_Some_iff)

lemma getChatSession_None:
  "(getChatSession db sid uid = None) = (\<forall>r \<in> set db. sess_id r = sid \<longrightarrow> sess_userId r \<noteq> uid)"
  unfolding getChatSession_def by (auto simp: find_None_iff)

lemma getChatSession_update_messages:
  "getChatSession (update_messages db sid ms t) sid' uid =
     map_option (\<lambda>r. if sess_id r = sid then r\<lparr>sess_messages := Some ms, sess_updatedAt := t\<rparr> else r)
       (getChatSession db sid' uid)"
  unfolding getChatSession_def update_messages_def
  by (rule find_map_preserved) simp

lemma startContentSession_fresh:
  assumes "\<forall>r \<in> set db. sess_id r \<noteq> newId"
  shows "getChatSession (snd (startContentSession db newId now uid cp st ctx)) newId uid =
           Some (fst (startContentSession db newId now uid cp st ctx)) \<and>
         conversationHistory (fst (startContentSession db newId now uid cp st ctx)) = []"
proof -
  from assms have "find (\<lambda>r. sess_id r = newId \<and> sess_userId r = uid) db = None"
    by (auto simp: find_None_iff)
  then show ?thesis
    by (simp add: startContentSession_def getChatSession_def Let_def find_snoc
        conversationHistory_def)
qed

section \<open>Properties of chatWithGemini\<close>

lemma chat_not_found:
  "getChatSession db sid uid = None \<Longrightarrow>
   chatWithGemini model str db now sid msg uid ctx =
     \<lparr>chat_result = Inl (Error (js ''Chat session not found'')), chat_db = db, chat_calls = []\<rparr>"
  by (simp add: chatWithGemini_def)

lemma not_found_distinct:
  "Error (js ''Chat session not found'') \<noteq> Error (js ''Failed to process chat message'')"
  by (simp add: js_def)

lemma chat_success:
  assumes "chat_result (chatWithGemini model str db now sid msg uid ctx) = Inr reply"
  shows "\<exists>s. getChatSession db sid uid = Some s \<and>
           chat_db (chatWithGemini model str db now sid msg uid ctx) =
             update_messages db sid
               (conversationHistory s @
                [\<lparr>role = js ''user'', content = msg, timestamp = Some (clock_user now)\<rparr>,
                 \<lparr>role = js ''assistant'', content = reply_message reply,
                  timestamp = Some (clock_assistant now)\<rparr>])
               (clock_update now)"
  using assms unfolding chatWithGemini_def
  by (auto simp: Let_def split: option.splits sum.splits)

lemma chat_success_history:
  assumes "getChatSession db sid uid = Some s"
    and "chat_result (chatWithGemini (ex_model e) str db (ex_clock e) sid (ex_userMessage e) uid (ex_context e)) = Inr reply"
  shows "\<exists>s'. getChatSession (chat_db (chatWithGemini (ex_model e) str db (ex_clock e) sid (ex_userMessage e) uid (ex_context e))) sid uid = Some s' \<and>
           conversationHistory s' = conversationHistory s @ turn e reply"
proof -
  from chat_success[OF assms(2)] assms(1)
  have db: "chat_db (chatWithGemini (ex_model e) str db (ex_clock e) sid (ex_userMessage e) uid (ex_context e)) =
      update_messages db sid (conversationHistory s @ turn e reply) (clock_update (ex_clock e))"
    by (simp add: turn_def)
  from getChatSession_Some[OF assms(1)] have "sess_id s = sid" by simp
  then show ?thesis
    unfolding db getChatSession_update_messages assms(1)
    by (simp add: conversationHistory_def)
qed

lemma exchanges_history:
  assumes "getChatSession db sid uid = Some s"
    and "exchanges str db sid uid es = Inr (db', replies)"
  shows "\<exists>s'. getChatSession db' sid uid = Some s' \<and>
           conversationHistory s' = conversationHistory s @ concat (map2 turn es replies) \<and>
           length replies = length es"
  using assms
proof (induction es arbitrary: db s replies)
  case Nil
  then show ?case by simp
next
  case (Cons e es)
  let ?out = "chatWithGemini (ex_model e) str db (ex_clock e) sid (ex_userMessage e) uid (ex_context e)"
  from Cons.prems(2) obtain reply rest where
    r: "chat_result ?out = Inr reply" and
    ex: "exchanges str (chat_db ?out) sid uid es = Inr (db', rest)" and
    rs: "replies = reply # rest"
    by (auto simp: Let_def split: sum.splits)
  from chat_success_history[OF Cons.prems(1) r] obtain s1 where
    s1: "getChatSession (chat_db ?out) sid uid = Some s1" and
    h1: "conversationHistory s1 = conversationHistory s @ turn e reply"
    by blast
  from Cons.IH[OF s1 ex] obtain s' where
    "getChatSession db' sid uid = Some s'" and
    "conversationHistory s' = conversationHistory s1 @ concat (map2 turn es rest)" and
    "length rest = length es"
    by blast
  then show ?case using h1 rs by simp
qed

lemma length_concat_turns:
  "length xs = length ys \<Longrightarrow> length (concat (map2 turn xs ys)) = 2 * length xs"
  by (induction xs ys rule: list_induct2) (simp_all add: turn_def)

text \<open>
  A session made by startContentSession under a fresh identifier holds, after a run
  of successful exchanges, two messages for each exchange.
\<close>

lemma fresh_session_exchanges:
  assumes "\<forall>r \<in> set db. sess_id r \<noteq> newId"
    and "exchanges str (snd (startContentSession db newId now uid cp st ctx)) newId uid es =
           Inr (db', replies)"
  shows "\<exists>s'. getChatSession db' newId uid = Some s' \<and>
           conversationHistory s' = concat (map2 turn es replies) \<and>
           length (conversationHistory s') = 2 * length es"
proof -
  from startContentSession_fresh[OF assms(1)]
  have a: "getChatSession (snd (startContentSession db newId now uid cp st ctx)) newId uid =
        Some (fst (startContentSession db newId now uid cp st ctx))"
    and b: "conversationHistory (fst (startContentSession db newId now uid cp st ctx)) = []"
    by blast+
  from exchanges_history[OF a assms(2)] obtain s' where
    c: "getChatSession db' newId uid = Some s'" and
    d: "conversationHistory s' =
          conversationHistory (fst (startContentSession db newId now uid cp st ctx)) @
          concat (map2 turn es replies)" and
    e: "length replies = length es"
    by blast
  from e have "length (concat (map2 turn es replies)) = 2 * length es"
    by (simp add: length_concat_turns)
  with b c d show ?thesis by simp
qed

text \<open>
  C1: when the call to the provider that chatWithGemini makes throws, chatWithGemini
  throws the generic error "Failed to process chat message" and the session table
  is what it was before the call: nothing is appended. The table differs after a
  call only when the provider was called and answered.
\<close>

theorem chat_provider_failure:
  "(chat_calls (chatWithGemini model str db now sid msg uid ctx) = [p] \<and> model p = None \<longrightarrow>
      chat_result (chatWithGemini model str db now sid msg uid ctx) =
        Inl (Error (js ''Failed to process chat message'')) \<and>
      chat_db (chatWithGemini model str db now sid msg uid ctx) = db) \<and>
   (chat_db (chatWithGemini model str db now sid msg uid ctx) \<noteq> db \<longrightarrow>
      (\<exists>q a. chat_calls (chatWithGemini model str db now sid msg uid ctx) = [q] \<and>
             model q = Some a))"
  unfolding chatWithGemini_def
  by (auto simp: Let_def split: option.splits sum.splits)

theorem chat_provider_failure_witness:
  "chat_result (chatWithGemini (\<lambda>p. None) (\<lambda>u. [])
      [\<lparr>sess_id = 1, sess_userId = js ''alice'', sess_contentPieceId = None,
        sess_sessionType = js ''content_creation'', sess_context = (),
        sess_messages = Some [], sess_updatedAt = 0\<rparr>]
      \<lparr>clock_user = 1, clock_assistant = 2, clock_update = 3\<rparr> 1 (js ''hi'') (js ''alice'')
      (Context None)) = Inl (Error (js ''Failed to process chat message'')) \<and>
   chat_db (chatWithGemini (\<lambda>p. None) (\<lambda>u. [])
      [\<lparr>sess_id = 1, sess_userId = js ''alice'', sess_contentPieceId = None,
        sess_sessionType = js ''content_creation'', sess_context = (),
        sess_messages = Some [], sess_updatedAt = 0\<rparr>]
      \<lparr>clock_user = 1, clock_assistant = 2, clock_update = 3\<rparr> 1 (js ''hi'') (js ''alice'')
      (Context None)) =
      [\<lparr>sess_id = 1, sess_userId = js ''alice'', sess_contentPieceId = None,
        sess_sessionType = js ''content_creation'', sess_context = (),
        sess_messages = Some [], sess_updatedAt = 0\<rparr>]"
proof -
  let ?db = "[\<lparr>sess_id = 1, sess_userId = js ''alice'', sess_contentPieceId = None,
        sess_sessionType = js ''content_creation'', sess_context = (),
        sess_messages = Some [], sess_updatedAt = 0\<rparr>]"
  let ?out = "chatWithGemini (\<lambda>p. None) (\<lambda>u. []) ?db
      \<lparr>clock_user = 1, clock_assistant = 2, clock_update = 3\<rparr> 1 (js ''hi'') (js ''alice'')
      (Context None)"
  have "\<exists>p. chat_calls ?out = [p]"
    by (simp add: chatWithGemini_def getChatSession_def buildChatPrompt_def Let_def)
  then obtain p where c: "chat_calls ?out = [p]" ..
  have d: "(\<lambda>p. None :: jsstring option) p = None" by simp
  from chat_provider_failure[where model = "\<lambda>p. None" and p = p, THEN conjunct1, rule_format,
      OF conjI, OF c d]
  show ?thesis .
qed



text \<open>
  C5: for a session identifier with no matching session, chatWithGemini throws
  "Chat session not found", an error other than the generic one, with no call to the
  provider and the session table as it was.
\<close>

theorem chat_session_not_found:
  assumes "getChatSession db sid uid = None"
  shows "chatWithGemini model str db now sid msg uid ctx =
           \<lparr>chat_result = Inl (Error (js ''Chat session not found'')), chat_db = db,
            chat_calls = []\<rparr> \<and>
         Error (js ''Chat session not found'') \<noteq> Error (js ''Failed to process chat message'')"
  using chat_not_found[OF assms] not_found_distinct by simp

theorem chat_session_not_found_witness:
  "chatWithGemini (\<lambda>p. Some (js ''ok'')) (\<lambda>u. [])
      [\<lparr>sess_id = 1, sess_userId = js ''alice'', sess_contentPieceId = None,
        sess_sessionType = js ''content_creation'', sess_context = (),
        sess_messages = Some [], sess_updatedAt = 0\<rparr>]
      \<lparr>clock_user = 1, clock_assistant = 2, clock_update = 3\<rparr> 7 (js ''hi'') (js ''alice'')
      (Context None) =
     \<lparr>chat_result = Inl (Error (js ''Chat session not found'')),
      chat_db = [\<lparr>sess_id = 1, sess_userId = js ''alice'', sess_contentPieceId = None,
        sess_sessionType = js ''content_creation'', sess_context = (),
        sess_messages = Some [], sess_updatedAt = 0\<rparr>],
      chat_calls = []\<rparr>"
proof -
  have h: "getChatSession
      [\<lparr>sess_id = 1, sess_userId = js ''alice'', sess_contentPieceId = None,
        sess_sessionType = js ''content_creation'', sess_context = (),
        sess_messages = Some [], sess_updatedAt = 0\<rparr>] 7 (js ''alice'') = None"
    by (simp add: getChatSession_def)
  from chat_session_not_found[OF h] show ?thesis by simp
qed

text \<open>
  C9: getChatSession returns only a row whose id and userId are both the ones asked
  for; and when every row with the given id belongs to another user, chatWithGemini
  throws the same "Chat session not found" as for a session that does not exist,
  calls no provider and leaves the table, so that session's messages, as it was.
\<close>

theorem session_scoped_to_owner:
  "(getChatSession db sid uid = Some s \<longrightarrow>
      sess_id s = sid \<and> sess_userId s = uid \<and> s \<in> set db) \<and>
   ((\<forall>r \<in> set db. sess_id r = sid \<longrightarrow> sess_userId r \<noteq> uid) \<longrightarrow>
      chatWithGemini model str db now sid msg uid ctx =
        \<lparr>chat_result = Inl (Error (js ''Chat session not found'')), chat_db = db,
         chat_calls = []\<rparr>)"
  using getChatSession_Some[of db sid uid s] getChatSession_None[of db sid uid]
    chat_not_found[of db sid uid model str now msg ctx]
  by blast

theorem session_scoped_to_owner_witness:
  "getChatSession
      [\<lparr>sess_id = 1, sess_userId = js ''alice'', sess_contentPieceId = None,
        sess_sessionType = js ''content_creation'', sess_context = (),
        sess_messages = Some [], sess_updatedAt = 0\<rparr>] 1 (js ''alice'') =
     Some \<lparr>sess_id = 1, sess_userId = js ''alice'', sess_contentPieceId = None,
        sess_sessionType = js ''content_creation'', sess_context = (),
        sess_messages = Some [], sess_updatedAt = 0\<rparr> \<and>
   chatWithGemini (\<lambda>p. Some (js ''ok'')) (\<lambda>u. [])
      [\<lparr>sess_id = 1, sess_userId = js ''alice'', sess_contentPieceId = None,
        sess_sessionType = js ''content_creation'', sess_context = (),
        sess_messages = Some [], sess_updatedAt = 0\<rparr>]
      \<lparr>clock_user = 1, clock_assistant = 2, clock_update = 3\<rparr> 1 (js ''hi'') (js ''bob'')
      (Context None) =
     \<lparr>chat_result = Inl (Error (js ''Chat session not found'')),
      chat_db = [\<lparr>sess_id = 1, sess_userId = js ''alice'', sess_contentPieceId = None,
        sess_sessionType = js ''content_creation'', sess_context = (),
        sess_messages = Some [], sess_updatedAt = 0\<rparr>],
      chat_calls = []\<rparr>"
proof -
  let ?row = "\<lparr>sess_id = 1, sess_userId = js ''alice'', sess_contentPieceId = None,
        sess_sessionType = js ''content_creation'', sess_context = (),
        sess_messages = Some [], sess_updatedAt = 0\<rparr>"
  have neq: "js ''alice'' \<noteq> js ''bob''" by (simp add: js_def)
  have a: "getChatSession [?row] 1 (js ''alice'') = Some ?row"
    by (simp add: getChatSession_def)
  have b: "\<forall>r \<in> set [?row]. sess_id r = 1 \<longrightarrow> sess_userId r \<noteq> js ''bob''"
    using neq by simp
  from session_scoped_to_owner[of "[?row]" 1 "js ''bob''" ?row "\<lambda>p. Some (js ''ok'')" "\<lambda>u. []"
      "\<lparr>clock_user = 1, clock_assistant = 2, clock_update = 3\<rparr>" "js ''hi''" "Context None"] a b
  show ?thesis by blast
qed

section \<open>Properties of the constructor\<close>

text \<open>
  C8: without \<open>GEMINI_API_KEY\<close> in the environment the constructor throws; no
  service object comes into being.
\<close>

theorem constructor_requires_key:
  assumes "env (js ''GEMINI_API_KEY'') = None"
  shows "new_GeminiContentService env =
           Inl (Error (js ''GEMINI_API_KEY environment variable is required''))"
  using assms by (simp add: new_GeminiContentService_def)

theorem constructor_requires_key_witness:
  "new_GeminiContentService Map.empty =
     Inl (Error (js ''GEMINI_API_KEY environment variable is required''))"
proof -
  have h: "(Map.empty :: jsstring \<rightharpoonup> jsstring) (js ''GEMINI_API_KEY'') = None" by simp
  from constructor_requires_key[OF h] show ?thesis .
qed

section \<open>Properties of the test-model endpoint\<close>

text \<open>
  C3, as the claim states it: for an unknown model identifier the status of the
  response is in the 400s and no provider is called. The status is 500, the one the
  handler's \<open>catch\<close> sends for every error.
\<close>

theorem test_model_unknown_id_not_4xx:
  "\<not> (\<forall>(configs :: (jsstring \<times> unit client \<times> jsstring) list) req.
        map_of configs (req_modelId req) = None \<longrightarrow>
        400 \<le> status (fst (test_model configs req)) \<and>
        status (fst (test_model configs req)) < 500 \<and>
        snd (test_model configs req) = [])"
proof
  assume a: "\<forall>(configs :: (jsstring \<times> unit client \<times> jsstring) list) req.
        map_of configs (req_modelId req) = None \<longrightarrow>
        400 \<le> status (fst (test_model configs req)) \<and>
        status (fst (test_model configs req)) < 500 \<and>
        snd (test_model configs req) = []"
  have "map_of ([] :: (jsstring \<times> unit client \<times> jsstring) list)
          (req_modelId \<lparr>req_modelId = js ''no-such-model'', req_message = None\<rparr>) = None"
    by simp
  with a have "status (fst (test_model ([] :: (jsstring \<times> unit client \<times> jsstring) list)
          \<lparr>req_modelId = js ''no-such-model'', req_message = None\<rparr>)) < 500"
    by blast
  then show False
    by (simp add: test_model_def selectClientAndModel_def Let_def)
qed

text \<open>
  C3, amended: for an unknown model identifier the endpoint answers with status 500
  and the failure body, and calls no provider.
\<close>

theorem test_model_unknown_id:
  assumes "map_of configs (req_modelId req) = None"
  shows "test_model configs req =
           (\<lparr>status = 500,
             body = TestFailure (js ''Failed to test model '' @ req_modelId req)
                      (UnsupportedModel (req_modelId req))\<rparr>, [])"
  using assms by (simp add: test_model_def selectClientAndModel_def Let_def)

theorem test_model_unknown_id_witness:
  "test_model ([] :: (jsstring \<times> unit client \<times> jsstring) list)
      \<lparr>req_modelId = js ''no-such-model'', req_message = None\<rparr> =
     (\<lparr>status = 500,
       body = TestFailure (js ''Failed to test model '' @ js ''no-such-model'')
                (UnsupportedModel (js ''no-such-model''))\<rparr>, [])"
proof -
  have h: "map_of ([] :: (jsstring \<times> unit client \<times> jsstring) list)
      (req_modelId \<lparr>req_modelId = js ''no-such-model'', req_message = None\<rparr>) = None"
    by simp
  from test_model_unknown_id[OF h] show ?thesis by simp
qed

section \<open>Properties of prompt assembly\<close>

lemma join_nth_split:
  "0 < i \<Longrightarrow> Suc i < length xs \<Longrightarrow>
   join sep xs = join sep (take i xs) @ sep @ xs ! i @ sep @ join sep (drop (Suc i) xs)"
proof (induction sep xs arbitrary: i rule: join.induct)
  case (1 sep)
  then show ?case by simp
next
  case (2 sep x)
  then show ?case by simp
next
  case (3 sep x y ys)
  show ?case
  proof (cases i)
    case 0
    with 3 show ?thesis by simp
  next
    case (Suc j)
    show ?thesis
    proof (cases j)
      case 0
      with Suc 3 show ?thesis by (cases ys) simp_all
    next
      case (Suc k)
      with \<open>i = Suc j\<close> "3.prems" have "0 < Suc k" and "Suc (Suc k) < length (y # ys)"
        by simp_all
      then have "join sep (y # ys) =
          join sep (take (Suc k) (y # ys)) @ sep @ (y # ys) ! Suc k @ sep @
          join sep (drop (Suc (Suc k)) (y # ys))"
        by (rule "3.IH")
      with Suc \<open>i = Suc j\<close> show ?thesis by simp
    qed
  qed
qed

lemma generateSEOContent_calls:
  "snd (generateSEOContent model str title_arg contentType_arg keywords_arg
          targetAudience_arg contentLength_arg tone_arg spyfuData_arg) =
     [buildSEOContentPrompt str
        \<lparr>title = title_arg, contentType = content_type_str contentType_arg,
         keywords' = keywords_arg, targetAudience = targetAudience_arg,
         contentLength = lengthGuide (case contentLength_arg of None \<Rightarrow> Medium | Some b \<Rightarrow> b),
         tone = tone_str (case tone_arg of None \<Rightarrow> Professional | Some t \<Rightarrow> t),
         spyfuData = spyfuData_arg\<rparr>]"
  by (simp add: generateSEOContent_def Let_def split: option.splits)

lemma seo_template_length: "length (seo_template str params) = 32"
  by (simp add: seo_template_def)

lemma seo_template_target_length:
  "seo_template str params ! 5 = js ''- Target Length: '' @ contentLength params"
  by (simp add: seo_template_def)

lemma seo_template_take:
  "take 5 (seo_template str (params\<lparr>contentLength := c\<rparr>)) = take 5 (seo_template str params)"
  by (simp add: seo_template_def)

lemma seo_template_drop:
  "drop 6 (seo_template str (params\<lparr>contentLength := c\<rparr>)) = drop 6 (seo_template str params)"
  by (simp add: seo_template_def)

lemma buildSEOContentPrompt_split:
  "buildSEOContentPrompt str (params\<lparr>contentLength := c\<rparr>) =
     (join nl (take 5 (seo_template str params)) @ nl) @ js ''- Target Length: '' @ c @ nl @
     join nl (drop 6 (seo_template str params))"
proof -
  have "buildSEOContentPrompt str (params\<lparr>contentLength := c\<rparr>) =
      join nl (take 5 (seo_template str (params\<lparr>contentLength := c\<rparr>))) @ nl @
      seo_template str (params\<lparr>contentLength := c\<rparr>) ! 5 @ nl @
      join nl (drop (Suc 5) (seo_template str (params\<lparr>contentLength := c\<rparr>)))"
    unfolding buildSEOContentPrompt_def
    by (rule join_nth_split) (simp_all add: seo_template_length)
  then show ?thesis
    by (simp add: seo_template_target_length seo_template_take seo_template_drop)
qed

text \<open>
  C6: the length bucket is looked up in a table of three entries, medium when none is
  given, and the prompt sent to the provider is a text that does not depend on the
  bucket, with the line \<open>- Target Length: \<close> followed by the range of the bucket
  in it.
\<close>

theorem seo_length_bucket:
  "lengthGuide Short = js ''300-500 words'' \<and>
   lengthGuide Medium = js ''800-1200 words'' \<and>
   lengthGuide Long = js ''1500-2500 words'' \<and>
   (\<exists>pre post. \<forall>contentLength_arg model.
      snd (generateSEOContent model str title_arg contentType_arg keywords_arg
             targetAudience_arg contentLength_arg tone_arg spyfuData_arg) =
        [pre @ js ''- Target Length: '' @
         lengthGuide (case contentLength_arg of None \<Rightarrow> Medium | Some b \<Rightarrow> b) @ nl @ post])"
proof -
  let ?params = "\<lparr>title = title_arg, contentType = content_type_str contentType_arg,
         keywords' = keywords_arg, targetAudience = targetAudience_arg,
         contentLength = [],
         tone = tone_str (case tone_arg of None \<Rightarrow> Professional | Some t \<Rightarrow> t),
         spyfuData = spyfuData_arg\<rparr>"
  have "\<forall>contentLength_arg model.
      snd (generateSEOContent model str title_arg contentType_arg keywords_arg
             targetAudience_arg contentLength_arg tone_arg spyfuData_arg) =
        [(join nl (take 5 (seo_template str ?params)) @ nl) @ js ''- Target Length: '' @
         lengthGuide (case contentLength_arg of None \<Rightarrow> Medium | Some b \<Rightarrow> b) @ nl @
         join nl (drop 6 (seo_template str ?params))]"
    using buildSEOContentPrompt_split[where str = str and params = ?params]
    by (simp add: generateSEOContent_calls)
  then have "\<exists>pre post. \<forall>contentLength_arg model.
      snd (generateSEOContent model str title_arg contentType_arg keywords_arg
             targetAudience_arg contentLength_arg tone_arg spyfuData_arg) =
        [pre @ js ''- Target Length: '' @
         lengthGuide (case contentLength_arg of None \<Rightarrow> Medium | Some b \<Rightarrow> b) @ nl @ post]"
    by blast
  then show ?thesis by (simp only: lengthGuide.simps simp_thms)
qed

theorem seo_length_bucket_witness:
  "\<exists>pre post.
     snd (generateSEOContent (\<lambda>p. None) (\<lambda>u::unit. []) (js ''T'') Blog [js ''k''] (js ''A'')
            (Some Long) None None) =
       [pre @ js ''- Target Length: '' @ js ''1500-2500 words'' @ nl @ post] \<and>
     snd (generateSEOContent (\<lambda>p. None) (\<lambda>u::unit. []) (js ''T'') Blog [js ''k''] (js ''A'')
            None None None) =
       [pre @ js ''- Target Length: '' @ js ''800-1200 words'' @ nl @ post]"
proof -
  from seo_length_bucket[of "\<lambda>u::unit. []" "js ''T''" Blog "[js ''k'']" "js ''A''" None None]
  obtain pre post where
    h: "\<forall>contentLength_arg model.
      snd (generateSEOContent model (\<lambda>u::unit. []) (js ''T'') Blog [js ''k''] (js ''A'')
             contentLength_arg None None) =
        [pre @ js ''- Target Length: '' @
         lengthGuide (case contentLength_arg of None \<Rightarrow> Medium | Some b \<Rightarrow> b) @ nl @ post]"
    by blast
  from h[rule_format, of "\<lambda>p. None" "Some Long"] h[rule_format, of "\<lambda>p. None" None]
  show ?thesis by (intro exI[of _ pre] exI[of _ post]) simp
qed

section \<open>Properties of extractSuggestions\<close>

lemma rx_match_le: "rx_match p s = Some n \<Longrightarrow> n \<le> length s"
  by (induction p s arbitrary: n rule: rx_match.induct)
     (auto split: if_splits option.splits)

lemma foldl_push_match:
  "foldl push_match acc ms = acc @ filter in_band (map cleaned ms)"
  by (induction ms arbitrary: acc) (simp_all add: push_match_def)

lemma foldl_push_pattern:
  "foldl (push_pattern r) acc ps =
     acc @ concat (map (\<lambda>p. filter in_band (map cleaned (match_g p r))) ps)"
  by (induction ps arbitrary: acc) (simp_all add: push_pattern_def foldl_push_match)

lemma extractSuggestions_eq:
  "extractSuggestions r =
     take 5 (concat (map (\<lambda>p. filter in_band (map cleaned (match_g p r))) patterns))"
  by (simp add: extractSuggestions_def foldl_push_pattern)

lemma extractSuggestions_member:
  assumes "x \<in> set (extractSuggestions r)"
  shows "\<exists>p \<in> set patterns. \<exists>m \<in> set (match_g p r). x = cleaned m \<and> in_band x"
proof -
  from assms have "x \<in> set (concat (map (\<lambda>p. filter in_band (map cleaned (match_g p r))) patterns))"
    unfolding extractSuggestions_eq by (rule in_set_takeD)
  then show ?thesis by auto
qed

lemma extractSuggestions_length: "length (extractSuggestions r) \<le> 5"
  by (simp add: extractSuggestions_def)

text \<open>
  C4, at the reply \<open>You  could add more internal links.\<close> (two spaces after
  \<open>You\<close>): the third pattern matches, since \<open>\s+\<close> takes both spaces; the
  pattern of \<open>replace\<close> has one literal space in \<open>you could\<close> and does not match,
  so the suggestion returned still begins with the phrase. With one space the phrase
  is removed.
\<close>

theorem suggestion_phrase_not_stripped:
  "match_g (patterns ! 2) (js ''You  could add more internal links.'') =
     [js ''You  could add more internal links''] \<and>
   strip_leading (js ''You  could add more internal links'') =
     js ''You  could add more internal links'' \<and>
   extractSuggestions (js ''You  could add more internal links.'') =
     [js ''You  could add more internal links''] \<and>
   extractSuggestions (js ''You could add more internal links.'') =
     [js ''add more internal links'']"
  by code_simp

text \<open>
  What the length test of the source does give: every suggestion returned is the
  text that \<open>replace\<close> and \<open>trim\<close> leave of a match of one of the patterns,
  and that text has more than 10 and fewer than 100 code units; when no match leaves
  a text of such a length the list is empty. The text measured is the one
  \<open>replace\<close> returns, with the phrase still in front where \<open>replace\<close> removed
  nothing.
\<close>

lemma cleaned_in_band:
  "(\<forall>x \<in> set (extractSuggestions r).
      10 < length x \<and> length x < 100 \<and>
      (\<exists>p \<in> set patterns. \<exists>m \<in> set (match_g p r). x = cleaned m)) \<and>
   ((\<forall>p \<in> set patterns. \<forall>m \<in> set (match_g p r). \<not> in_band (cleaned m))
      \<longrightarrow> extractSuggestions r = [])"
proof -
  have band: "\<forall>x \<in> set (extractSuggestions r).
      10 < length x \<and> length x < 100 \<and>
      (\<exists>p \<in> set patterns. \<exists>m \<in> set (match_g p r). x = cleaned m)"
  proof
    fix x assume "x \<in> set (extractSuggestions r)"
    from extractSuggestions_member[OF this]
    show "10 < length x \<and> length x < 100 \<and>
      (\<exists>p \<in> set patterns. \<exists>m \<in> set (match_g p r). x = cleaned m)"
      by (auto simp: in_band_def)
  qed
  have empty: "(\<forall>p \<in> set patterns. \<forall>m \<in> set (match_g p r). \<not> in_band (cleaned m))
      \<longrightarrow> extractSuggestions r = []"
  proof (rule impI, rule ccontr)
    assume none: "\<forall>p \<in> set patterns. \<forall>m \<in> set (match_g p r). \<not> in_band (cleaned m)"
    assume "extractSuggestions r \<noteq> []"
    then obtain x where "x \<in> set (extractSuggestions r)"
      by (cases "extractSuggestions r") auto
    from extractSuggestions_member[OF this] none show False by blast
  qed
  from band empty show ?thesis by blast
qed

lemma cleaned_in_band_example:
  "extractSuggestions (js ''Try it.'') = [] \<and>
   match_g (patterns ! 1) (js ''Try it.'') = [js ''Try it''] \<and>
   extractSuggestions (js ''Consider adding a table of contents.'') = [js ''adding a table of contents''] \<and>
   length (js ''adding a table of contents'') = 26"
proof -
  have h: "\<forall>p \<in> set patterns. \<forall>m \<in> set (match_g p (js ''Try it.'')). \<not> in_band (cleaned m)"
    by code_simp
  have a: "extractSuggestions (js ''Try it.'') = []"
    using cleaned_in_band[of "js ''Try it.''"] h by blast
  have b: "match_g (patterns ! 1) (js ''Try it.'') = [js ''Try it'']"
    by code_simp
  have c: "extractSuggestions (js ''Consider adding a table of contents.'') = [js ''adding a table of contents'']"
    by code_simp
  have d: "length (js ''adding a table of contents'') = 26"
    by (simp add: js_def)
  from a b c d show ?thesis by simp
qed

text \<open>
  C10, at the reply \<open>You  could fix it.\<close> (two spaces after \<open>You\<close>): the
  only match is that of the third pattern, and the text after its leading phrase is
  \<open>fix it\<close>, of 6 code units, outside the band. The pattern of \<open>replace\<close> does
  not match the phrase, so the length tested is that of the whole match, 17, and the
  match is returned as a suggestion. With one space the phrase is removed, the
  length tested is 6 and the list is empty.
\<close>

theorem suggestion_band_measured_with_phrase:
  "map (\<lambda>p. match_g p (js ''You  could fix it.'')) patterns =
     [[], [], [js ''You  could fix it''], [], []] \<and>
   drop 11 (js ''You  could fix it'') = js ''fix it'' \<and>
   length (js ''fix it'') = 6 \<and>
   cleaned (js ''You  could fix it'') = js ''You  could fix it'' \<and>
   length (cleaned (js ''You  could fix it'')) = 17 \<and>
   extractSuggestions (js ''You  could fix it.'') = [js ''You  could fix it''] \<and>
   cleaned (js ''You could fix it'') = js ''fix it'' \<and>
   extractSuggestions (js ''You could fix it.'') = []"
  by code_simp

end
